theory Spec2Isabelle
  imports Main "HOL-Library.Word"
begin

unbundle bit_operations_syntax

section \<open>GPS\_RTC\_Clock: data model\<close>

text \<open>
  The sketch runs on an Arduino Uno (AVR): \<open>int\<close> and \<open>unsigned int\<close> are 16 bits wide,
  \<open>char\<close> is a signed byte, \<open>unsigned long\<close> and \<open>uint32_t\<close> are 32 bits wide.
  A signed comparison of the source is \<open><s\<close> or \<open>\<le>s\<close> here, an unsigned one \<open><\<close> or \<open>\<le>\<close>;
  signed overflow wraps around, as the AVR instructions do.
\<close>

type_synonym int16 = "16 word"
type_synonym uint16 = "16 word"
type_synonym uint8 = "8 word"
type_synonym int8 = "8 word"
type_synonym uint32 = "32 word"

text \<open>The 16-bit colours of the display header \<open>Adafruit_ILI9340.h\<close>.\<close>

definition ILI9340_BLACK :: uint16 where "ILI9340_BLACK = 0x0000"
definition ILI9340_BLUE :: uint16 where "ILI9340_BLUE = 0x001F"
definition ILI9340_RED :: uint16 where "ILI9340_RED = 0xF800"
definition ILI9340_GREEN :: uint16 where "ILI9340_GREEN = 0x07E0"
definition ILI9340_WHITE :: uint16 where "ILI9340_WHITE = 0xFFFF"

text \<open>\<open>DateTime\<close> of RTClib: what \<open>rtc.now()\<close> returns and \<open>rtc.adjust\<close> takes.\<close>

record DateTime =
  dt_year :: uint16
  dt_month :: uint8
  dt_day :: uint8
  dt_hour :: uint8
  dt_minute :: uint8
  dt_second :: uint8

text \<open>
  The state of the \<open>TinyGPSPlus\<close> object: the validity flags, the satellite count, the
  number of characters decoded so far, and the date and time fields of the last sentence.
\<close>

record TinyGPSPlus =
  date_isValid :: bool
  time_isValid :: bool
  satellites_value :: uint32
  charsProcessed :: uint32
  date_year :: uint16
  date_month :: uint8
  date_day :: uint8
  time_hour :: uint8
  time_minute :: uint8
  time_second :: uint8

text \<open>
  The local time \<open>local\<close> as the accessors of the Time library read it
  (\<open>hour(local)\<close>, \<open>minute(local)\<close>, ..., \<open>hourFormat12(local)\<close>), each an \<open>int\<close>.
\<close>

record tm =
  tm_hour :: int16
  tm_minute :: int16
  tm_second :: int16
  tm_weekday :: int16
  tm_day :: int16
  tm_month :: int16
  tm_year :: int16
  tm_hourFormat12 :: int16

text \<open>What is sent to the serial console, and what is sent to the display.\<close>

datatype serial_op =
  SPrint string
| SPrintln string
| SPrintlnInt int16

datatype tft_op =
  SetCursor int16 int16
| SetTextColor uint16 uint16
| SetTextSize uint8
| Print string
| Println string
| PrintDec int16
| PrintU32 uint32
| FillCircle int16 int16 int16 uint16
| DrawFastHLine int16 int16 int16 uint16
| DrawFastVLine int16 int16 int16 uint16

text \<open>
  The globals of the sketch, together with the devices it writes: the registers of the
  RTC (\<open>rtc\<close>), the list of the \<open>rtc.adjust\<close> calls made so far (\<open>rtc_writes\<close>), the serial
  console (\<open>serial\<close>) and the duty cycle last written to the backlight pin (\<open>backlight\<close>).
  The RTC counts on by itself between two cycles; within a cycle \<open>rtc.now()\<close> reads the
  registers as they are.
\<close>

record clock =
  rtcSet :: bool
  backlightVal :: int16
  numberColor :: int16
  colorChange :: int16
  photocellReading :: int16
  currentMillis :: uint32
  syncTimer :: uint32
  scheduledTimer :: uint32
  newboot :: bool
  gps :: TinyGPSPlus
  rtc :: DateTime
  rtc_writes :: "DateTime list"
  serial :: "serial_op list"
  backlight :: int16

text \<open>
  The initial values of the globals, over the receiver object and the RTC registers found
  at power-on.
\<close>

definition init_clock :: "TinyGPSPlus \<Rightarrow> DateTime \<Rightarrow> clock" where
  "init_clock g r =
     \<lparr>rtcSet = False, backlightVal = 50, numberColor = ILI9340_WHITE, colorChange = 0,
      photocellReading = 0, currentMillis = 0, syncTimer = 0, scheduledTimer = 0,
      newboot = True, gps = g, rtc = r, rtc_writes = [], serial = [], backlight = 0\<rparr>"

section \<open>Time source arbiter\<close>

definition checkRTCset :: "clock \<Rightarrow> clock" where
  "checkRTCset s =
     (let now = rtc s in
      if dt_hour now = 0 \<and> dt_minute now = 0 \<and> dt_second now = 0 \<and> dt_year now < 2010
      then s\<lparr>serial := serial s @ [SPrintln ''*** RTC TIME NOT SET. ***'', SPrintln '''']\<rparr>
      else s\<lparr>rtcSet := True,
             serial := serial s @ [SPrintln ''RTC TIME SET.'', SPrintln '''']\<rparr>)"

text \<open>The \<open>DateTime\<close> that \<open>setRTCfromGPS\<close> builds from the receiver's fields.\<close>

definition gps_DateTime :: "TinyGPSPlus \<Rightarrow> DateTime" where
  "gps_DateTime g =
     \<lparr>dt_year = date_year g, dt_month = date_month g, dt_day = date_day g,
      dt_hour = time_hour g, dt_minute = time_minute g, dt_second = time_second g\<rparr>"

definition rtc_adjust :: "DateTime \<Rightarrow> clock \<Rightarrow> clock" where
  "rtc_adjust d s = s\<lparr>rtc := d, rtc_writes := rtc_writes s @ [d]\<rparr>"

definition setRTCfromGPS :: "clock \<Rightarrow> clock" where
  "setRTCfromGPS s =
     (let s1 = s\<lparr>serial := serial s @ [SPrintln ''Setting RTC from GPS'', SPrintln '''']\<rparr> in
      if date_isValid (gps s1) \<and> time_isValid (gps s1)
      then (let s2 = rtc_adjust (gps_DateTime (gps s1)) s1 in
            s2\<lparr>serial := serial s2 @ [SPrintln ''RTC set from GPS'']\<rparr>)
      else s1\<lparr>serial := serial s1 @ [SPrintln ''No GPS fix yet. Can't set RTC yet.'']\<rparr>)"

text \<open>\<open>int satcount = gps.satellites.value()\<close> keeps the low 16 bits of the count.\<close>

definition syncOnBoot :: "clock \<Rightarrow> clock" where
  "syncOnBoot s =
     (if newboot s then
        (let satcount = (ucast (satellites_value (gps s)) :: int16) in
         if date_isValid (gps s) \<and> time_isValid (gps s) \<and> 4 <s satcount then
           (let s1 = s\<lparr>serial := serial s @
                        [SPrint ''New boot. Need to update RTC with GPS time. Sat count: '',
                         SPrintlnInt satcount]\<rparr>;
                s2 = setRTCfromGPS s1
            in s2\<lparr>newboot := False, syncTimer := 0\<rparr>)
         else if syncTimer s + 250 < currentMillis s then
           s\<lparr>serial := serial s @
                [SPrint ''GPS not ready yet. Waiting for fix. Sat count: '',
                 SPrintlnInt satcount],
             syncTimer := currentMillis s\<rparr>
         else s)
      else s)"

definition scheduledSync :: "tm \<Rightarrow> clock \<Rightarrow> clock" where
  "scheduledSync local s =
     (if scheduledTimer s + 60000 < currentMillis s then
        (let s1 = (if tm_minute local = 21
                   then setRTCfromGPS
                          (s\<lparr>serial := serial s @ [SPrintln ''Scheduled RTC sync from GPS Time'']\<rparr>)
                   else s)
         in s1\<lparr>scheduledTimer := currentMillis s1\<rparr>)
      else s)"

section \<open>Ambient adaptation\<close>

text \<open>Both routines take the value that \<open>analogRead(photocellPin)\<close> returns.\<close>

definition setNumberColor :: "int16 \<Rightarrow> tm \<Rightarrow> clock \<Rightarrow> clock" where
  "setNumberColor reading local s =
     (let s1 = s\<lparr>photocellReading := reading\<rparr> in
      if (20 \<le>s tm_hour local \<or> tm_hour local <s 6) \<and> photocellReading s1 \<le>s 100 then
        (if numberColor s1 \<noteq> ILI9340_RED
         then s1\<lparr>numberColor := ILI9340_RED, colorChange := 2\<rparr> else s1)
      else
        (if numberColor s1 \<noteq> ILI9340_WHITE
         then s1\<lparr>numberColor := ILI9340_WHITE, colorChange := 2\<rparr> else s1))"

definition setBackLightBrightness :: "int16 \<Rightarrow> clock \<Rightarrow> clock" where
  "setBackLightBrightness reading s =
     (let s0 = s\<lparr>photocellReading := reading\<rparr>;
          s1 = (if 100 <s photocellReading s0 then s0\<lparr>backlightVal := 255\<rparr> else s0);
          s2 = (if photocellReading s1 \<le>s 100 then s1\<lparr>backlightVal := 50\<rparr> else s1);
          s3 = (if photocellReading s2 \<le>s 50 then s2\<lparr>backlightVal := 20\<rparr> else s2);
          s4 = (if photocellReading s3 <s 20 then s3\<lparr>backlightVal := 5\<rparr> else s3)
      in s4\<lparr>backlight := backlightVal s4\<rparr>)"

section \<open>Seven-segment digit renderer\<close>

text \<open>The \<open>abs\<close> macro of Arduino on an \<open>int\<close>: \<open>((x)>0?(x):-(x))\<close>.\<close>

definition abs16 :: "int16 \<Rightarrow> int16" where
  "abs16 x = (if 0 <s x then x else - x)"

text \<open>
  Segment definitions for the ten digits, then blank (index 10) and the minus sign
  (index 11): bit \<open>j\<close> of an entry lights segment \<open>j\<close>.
\<close>

definition nums :: "uint8 list" where
  "nums = [0x3F, 0x06, 0x5B, 0x4F, 0x66, 0x6D, 0x7D, 0x07, 0x7F, 0x67, 0x00, 0x40]"

text \<open>
  The sizes derived from the character size \<open>cS\<close>, a signed \<open>char\<close> promoted to \<open>int\<close>:
  segment width \<open>S2\<close>, thickness \<open>S3\<close>, height \<open>S4\<close>, and the distance \<open>d\<close> from one
  digit to the next.
\<close>

definition draw7_S2 :: "int8 \<Rightarrow> uint16" where "draw7_S2 cS = 5 * scast cS"
definition draw7_S3 :: "int8 \<Rightarrow> uint16" where "draw7_S3 cS = 2 * scast cS"
definition draw7_S4 :: "int8 \<Rightarrow> uint16" where "draw7_S4 cS = 7 * scast cS"
definition draw7_d :: "int8 \<Rightarrow> uint16" where
  "draw7_d cS = draw7_S2 cS + 3 * draw7_S3 cS + 2"

text \<open>The x and y locations of the seven segments with their direction (1: horizontal).\<close>

definition draw7_seg :: "uint16 \<Rightarrow> int8 \<Rightarrow> (uint16 \<times> uint16 \<times> uint16) list" where
  "draw7_seg yLoc cS =
     (let S2 = draw7_S2 cS; S3 = draw7_S3 cS; S4 = draw7_S4 cS;
          x1 = scast cS + 1;
          x2 = S3 + S2 + 1;
          y1 = yLoc + x1;
          y3 = yLoc + S3 + S4 + 1
      in [(x1, yLoc, 1), (x2, y1, 0), (x2, y3 + x1, 0), (x1, (2 * y3) - yLoc, 1),
          (0, y3 + x1, 0), (0, y1, 0), (x1, y3, 1)])"

text \<open>
  \<open>c = abs(cS)\<close> and \<open>cnt = abs(nD)\<close>, each then brought between 1 and 10. The source
  computes \<open>c\<close> and does not read it again.
\<close>

definition clamp_1_10 :: "uint8 \<Rightarrow> uint8" where
  "clamp_1_10 v = (let v1 = (if 10 < v then 10 else v) in if v1 < 1 then 1 else v1)"

definition draw7_c :: "int8 \<Rightarrow> uint8" where
  "draw7_c cS = clamp_1_10 (ucast (abs16 (scast cS)))"

definition draw7_cnt :: "int8 \<Rightarrow> uint8" where
  "draw7_cnt nD = clamp_1_10 (ucast (abs16 (scast nD)))"

lemma word_less_inc_unat: "(b::'a::len word) < h \<Longrightarrow> unat (b + 1) = Suc (unat b)"
proof -
  assume "b < h"
  then have "b \<noteq> - 1"
    by (metis word_n1_ge leD)
  then have "1 + b \<noteq> 0"
    by (metis add.commute eq_neg_iff_add_eq_0)
  then show ?thesis
    by (simp add: unatSuc add.commute)
qed

lemma word_pos_dec_unat: "(0::'a::len word) < c \<Longrightarrow> unat (c - 1) < unat c"
  by (simp add: measure_unat)

text \<open>
  One line of a segment: \<open>a\<close> is the start along the segment, \<open>b\<close> the position across
  it, \<open>w\<close> the length.
\<close>

definition seg_line :: "bool \<Rightarrow> uint16 \<Rightarrow> uint16 \<Rightarrow> uint16 \<Rightarrow> uint16 \<Rightarrow> tft_op" where
  "seg_line horiz a b w col = (if horiz then DrawFastHLine a b w col else DrawFastVLine b a w col)"

text \<open>\<open>while (b < h)\<close>: the first half of a segment, each line longer by 2.\<close>

function seg_grow ::
  "bool \<Rightarrow> uint16 \<Rightarrow> uint16 \<Rightarrow> uint16 \<Rightarrow> uint16 \<Rightarrow> uint16 \<Rightarrow> tft_op list
   \<Rightarrow> tft_op list \<times> uint16 \<times> uint16 \<times> uint16" where
  "seg_grow horiz col h a b w ops =
     (if b < h then seg_grow horiz col h (a - 1) (b + 1) (w + 2) (ops @ [seg_line horiz a b w col])
      else (ops, a, b, w))"
  by pat_completeness auto
termination
  by (relation "measure (\<lambda>(horiz, col, h, a, b, w, ops). unat h - unat b)")
     (auto simp: word_less_inc_unat word_less_nat_alt)

declare seg_grow.simps [simp del]

text \<open>\<open>while (b < t)\<close>: the second half, each line shorter by 2.\<close>

function seg_shrink ::
  "bool \<Rightarrow> uint16 \<Rightarrow> uint16 \<Rightarrow> uint16 \<Rightarrow> uint16 \<Rightarrow> uint16 \<Rightarrow> tft_op list \<Rightarrow> tft_op list" where
  "seg_shrink horiz col t a b w ops =
     (if b < t then seg_shrink horiz col t (a + 1) (b + 1) (w - 2) (ops @ [seg_line horiz a b w col])
      else ops)"
  by pat_completeness auto
termination
  by (relation "measure (\<lambda>(horiz, col, t, a, b, w, ops). unat t - unat b)")
     (auto simp: word_less_inc_unat word_less_nat_alt)

declare seg_shrink.simps [simp del]

text \<open>Segment \<open>sg\<close> of the digit at \<open>xLoc\<close>, in colour \<open>col\<close>.\<close>

definition draw7_segment :: "uint16 \<Rightarrow> int8 \<Rightarrow> uint16 \<Rightarrow> uint16 \<times> uint16 \<times> uint16 \<Rightarrow> tft_op list" where
  "draw7_segment xLoc cS col sg =
     (case sg of (sx, sy, dir) \<Rightarrow>
        (if dir \<noteq> 0 then
           (let w = draw7_S2 cS;
                t = sy + draw7_S3 cS;
                h = sy + scast cS;
                a = xLoc + sx + scast cS;
                b = sy
            in case seg_grow True col h a b w [] of
                 (ops, a', b', w') \<Rightarrow> seg_shrink True col t a' b' w' ops)
         else
           (let w = draw7_S4 cS;
                t = xLoc + sx + draw7_S3 cS;
                h = xLoc + sx + scast cS;
                a = sy + scast cS;
                b = xLoc + sx
            in case seg_grow False col h a b w [] of
                 (ops, a', b', w') \<Rightarrow> seg_shrink False col t a' b' w' ops)))"

text \<open>
  All seven segments of the glyph with index \<open>i\<close>: an active segment in the foreground
  colour, an inactive one in the background colour. The index is at most 11 wherever
  the renderer calls this.
\<close>

definition draw7_glyph :: "uint16 \<Rightarrow> uint16 \<Rightarrow> int8 \<Rightarrow> uint16 \<Rightarrow> uint16 \<Rightarrow> uint16 \<Rightarrow> tft_op list" where
  "draw7_glyph xLoc yLoc cS fC bC i =
     concat (map (\<lambda>j. draw7_segment xLoc cS
                        (if (ucast (nums ! unat i) :: int16) AND push_bit j 1 \<noteq> 0 then fC else bC)
                        (draw7_seg yLoc cS ! j))
                 [0..<7])"

text \<open>
  The loop over the digit places, least significant first: the glyph index chosen at each
  place and the x location it is drawn at.
\<close>

function draw7_cells ::
  "int16 \<Rightarrow> int8 \<Rightarrow> uint16 \<Rightarrow> uint8 \<Rightarrow> uint16 \<Rightarrow> uint16 \<Rightarrow> (uint16 \<times> uint16) list" where
  "draw7_cells n nD d cnt num xLoc =
     (if 0 < cnt then
        (let cnt' = cnt - 1;
             i = (if 9 < num then num mod 10
                  else if cnt' = 0 \<and> n <s 0 then 11
                  else if nD <s 0 \<and> num = 0 then 10
                  else num)
         in (i, xLoc) # draw7_cells n nD d cnt' (num div 10) (xLoc - d))
      else [])"
  by pat_completeness auto
termination
  by (relation "measure (\<lambda>(n, nD, d, cnt, num, xLoc). unat cnt)")
     (auto simp: word_pos_dec_unat)

declare draw7_cells.simps [simp del]

text \<open>The digit places of \<open>draw7Number\<close>, in the order drawn.\<close>

definition draw7_places :: "int16 \<Rightarrow> uint16 \<Rightarrow> int8 \<Rightarrow> int8 \<Rightarrow> (uint16 \<times> uint16) list" where
  "draw7_places n xLoc cS nD =
     (let num = abs16 n;
          d = draw7_d cS;
          cnt = draw7_cnt nD;
          xLoc' = xLoc + (ucast cnt - 1) * d
      in draw7_cells n nD d cnt num xLoc')"

definition draw7Number ::
  "int16 \<Rightarrow> uint16 \<Rightarrow> uint16 \<Rightarrow> int8 \<Rightarrow> uint16 \<Rightarrow> uint16 \<Rightarrow> int8 \<Rightarrow> tft_op list" where
  "draw7Number n xLoc yLoc cS fC bC nD =
     concat (map (\<lambda>(i, x). draw7_glyph x yLoc cS fC bC i) (draw7_places n xLoc cS nD))"

text \<open>The glyph indices of a rendered number, most significant place first.\<close>

definition draw7_glyphs :: "int16 \<Rightarrow> int8 \<Rightarrow> int8 \<Rightarrow> uint16 list" where
  "draw7_glyphs n cS nD = rev (map fst (draw7_places n 0 cS nD))"

section \<open>Display refresh\<close>

definition daysOfTheWeek :: "string list" where
  "daysOfTheWeek =
     [''  Sunday  '', ''  Monday  '', '' Tuesday '', ''Wednesday'', '' Thursday '',
      ''  Friday  '', '' Saturday '']"

text \<open>
  \<open>daysOfTheWeek[weekday(local)-1]\<close>. The Time library returns a weekday from 1 to 7; for
  any other value the C expression reads outside the table, and the model has the empty
  string there.
\<close>

definition weekday_name :: "int16 \<Rightarrow> string" where
  "weekday_name wd =
     (let k = sint wd - 1 in if 0 \<le> k \<and> k < 7 then daysOfTheWeek ! nat k else [])"

text \<open>
  The date region. \<open>ms\<close> is what \<open>millis()\<close> returns here. The two cursor positions are
  computed on small non-negative \<open>int\<close> values (at most 120), where the division and
  remainder of C and of HOL agree.
\<close>

definition tftDisplayDate :: "uint32 \<Rightarrow> tm \<Rightarrow> clock \<Rightarrow> tft_op list \<times> clock" where
  "tftDisplayDate ms local s =
     (if \<not> rtcSet s then
        ([SetCursor 65 50, SetTextColor (numberColor s) ILI9340_BLACK, SetTextSize 1,
          Println ''Waiting for GPS Fix''], s)
      else if (tm_hour local = 0 \<and> tm_minute local <s 5) \<or> ms < 2500 \<or> 0 <s colorChange s then
        (let daychars = int (length (weekday_name (tm_weekday local)));
             xpos = 120 - ((daychars div 2) * 10);
             xpos1 = (if xpos mod 2 \<noteq> 0 then xpos - 5 else xpos);
             datechars = 6 + (if tm_month local <s 10 then 1 else 2)
                           + (if tm_day local <s 10 then 1 else 2);
             xpos2 = 120 - ((datechars div 2) * 15);
             xpos3 = (if xpos2 mod 2 \<noteq> 0 then xpos2 - 5 else xpos2)
         in ([SetTextColor (numberColor s) ILI9340_BLACK, SetTextSize 2,
              SetCursor (word_of_int xpos1) 10,
              Print (weekday_name (tm_weekday local)),
              SetCursor (word_of_int xpos3) 40,
              SetTextColor (numberColor s) ILI9340_BLACK, SetTextSize 3,
              PrintDec (tm_month local), Print ''/'',
              PrintDec (tm_day local), Print ''/'',
              PrintDec (tm_year local)],
             s\<lparr>colorChange := colorChange s - 1\<rparr>))
      else ([], s))"

text \<open>The time region: two separator dots and the two digit groups.\<close>

definition tftDisplayTime :: "uint32 \<Rightarrow> tm \<Rightarrow> clock \<Rightarrow> tft_op list \<times> clock" where
  "tftDisplayTime ms local s =
     (if \<not> rtcSet s then
        ([SetCursor 30 150, SetTextColor (numberColor s) ILI9340_BLACK, SetTextSize 2,
          Println ''Waiting for GPS Fix''], s)
      else if tm_second local = 0 \<or> ms < 2500 \<or> 0 <s colorChange s then
        ([FillCircle 115 150 4 (numberColor s), FillCircle 115 200 4 (numberColor s)]
           @ draw7Number (tm_hourFormat12 local) 0 125 5 (numberColor s) ILI9340_BLACK (- 2)
           @ draw7Number (tm_minute local) 130 125 5 (numberColor s) ILI9340_BLACK 2,
         s\<lparr>colorChange := colorChange s - 1\<rparr>)
      else ([], s))"

definition secondDotDisplay2 :: "tm \<Rightarrow> tft_op list" where
  "secondDotDisplay2 local =
     (if tm_second local = 0
      then [DrawFastVLine 236 80 4 ILI9340_BLACK, DrawFastVLine 232 80 4 ILI9340_BLACK]
      else [])
     @ [DrawFastVLine ((tm_second local * 4) - 8) 80 4 ILI9340_BLACK,
        DrawFastVLine ((tm_second local * 4) - 4) 80 3 ILI9340_BLACK,
        DrawFastVLine (tm_second local * 4) 80 5 ILI9340_GREEN,
        DrawFastVLine ((tm_second local * 4) + 4) 83 2 ILI9340_GREEN]"

definition tftDisplayGPSsats :: "uint32 \<Rightarrow> tm \<Rightarrow> clock \<Rightarrow> tft_op list" where
  "tftDisplayGPSsats ms local s =
     (if tm_second local = 30 \<or> ms < 2500
      then [SetCursor 90 300, SetTextColor ILI9340_WHITE ILI9340_BLACK, SetTextSize 1,
            Print ''GPS Sats: '', PrintU32 (satellites_value (gps s)), Print ''  '']
      else [])"

section \<open>The main loop\<close>

text \<open>
  What one pass of \<open>loop\<close> reads from outside: the millisecond counter at each call of
  \<open>millis()\<close>, the receiver object once the buffered serial bytes are decoded, the local
  time that the time-zone library makes of \<open>now()\<close>, and the two photocell readings.
\<close>

record cycle =
  millis_loop :: uint32
  gps_decoded :: TinyGPSPlus
  local_time :: tm
  light_color :: int16
  millis_date :: uint32
  millis_time :: uint32
  millis_sats :: uint32
  light_backlight :: int16

text \<open>What one pass draws, by the routine that draws it.\<close>

record frame =
  date_region :: "tft_op list"
  time_region :: "tft_op list"
  seconds_region :: "tft_op list"
  sats_region :: "tft_op list"

text \<open>\<open>while(true);\<close> after the wiring message: the sketch stops, in the state given.\<close>

datatype halted = NoGPSDetected clock

text \<open>
  The head of \<open>loop\<close>: the millisecond counter is sampled, an RTC that is not set is
  written from the receiver and checked again, and the buffered bytes are decoded.
\<close>

definition loop_head :: "cycle \<Rightarrow> clock \<Rightarrow> clock" where
  "loop_head c s =
     (let s0 = s\<lparr>currentMillis := millis_loop c\<rparr>;
          s1 = (if \<not> rtcSet s0 then checkRTCset (setRTCfromGPS s0) else s0)
      in s1\<lparr>gps := gps_decoded c\<rparr>)"

definition loop :: "cycle \<Rightarrow> clock \<Rightarrow> halted + frame \<times> clock" where
  "loop c s =
     (let s2 = loop_head c s
      in if 5000 < currentMillis s2 \<and> charsProcessed (gps s2) < 10 then
           Inl (NoGPSDetected
                  (s2\<lparr>serial := serial s2 @ [SPrintln ''No GPS detected: check wiring.'']\<rparr>))
         else
           (let local = local_time c;
                s3 = setNumberColor (light_color c) local s2
            in case tftDisplayDate (millis_date c) local s3 of (date_ops, s4) \<Rightarrow>
               case tftDisplayTime (millis_time c) local s4 of (time_ops, s5) \<Rightarrow>
               (let secs_ops = secondDotDisplay2 local;
                    sats_ops = tftDisplayGPSsats (millis_sats c) local s5;
                    s6 = setBackLightBrightness (light_backlight c) s5;
                    s7 = syncOnBoot s6;
                    s8 = scheduledSync local s7
                in Inr (\<lparr>date_region = date_ops, time_region = time_ops,
                          seconds_region = secs_ops, sats_region = sats_ops\<rparr>, s8))))"

text \<open>The frame and the state that one pass leaves, whether it halts or not.\<close>

definition loop_frame :: "cycle \<Rightarrow> clock \<Rightarrow> frame" where
  "loop_frame c s =
     (case loop c s of
        Inr (f, s') \<Rightarrow> f
      | Inl h \<Rightarrow> \<lparr>date_region = [], time_region = [], seconds_region = [], sats_region = []\<rparr>)"

definition loop_state :: "cycle \<Rightarrow> clock \<Rightarrow> clock" where
  "loop_state c s = (case loop c s of Inr (f, s') \<Rightarrow> s' | Inl (NoGPSDetected s') \<Rightarrow> s')"

section \<open>Sample inputs\<close>

text \<open>An RTC that lost its battery, and one that kept time.\<close>

definition rtc_default :: DateTime where
  "rtc_default =
     \<lparr>dt_year = 2000, dt_month = 1, dt_day = 1, dt_hour = 0, dt_minute = 0, dt_second = 0\<rparr>"

definition rtc_running :: DateTime where
  "rtc_running =
     \<lparr>dt_year = 2024, dt_month = 6, dt_day = 15, dt_hour = 18, dt_minute = 45, dt_second = 9\<rparr>"

text \<open>A receiver that has decoded \<open>chars\<close> characters without a fix, and one with a fix.\<close>

definition gps_nofix :: "uint32 \<Rightarrow> TinyGPSPlus" where
  "gps_nofix chars =
     \<lparr>date_isValid = False, time_isValid = False, satellites_value = 0,
      charsProcessed = chars, date_year = 2000, date_month = 0, date_day = 0,
      time_hour = 0, time_minute = 0, time_second = 0\<rparr>"

definition gps_fix :: "uint32 \<Rightarrow> TinyGPSPlus" where
  "gps_fix sats =
     \<lparr>date_isValid = True, time_isValid = True, satellites_value = sats,
      charsProcessed = 700, date_year = 2024, date_month = 6, date_day = 15,
      time_hour = 18, time_minute = 45, time_second = 10\<rparr>"

text \<open>Saturday 15 June 2024 at the given local time.\<close>

definition local_at :: "int16 \<Rightarrow> int16 \<Rightarrow> int16 \<Rightarrow> tm" where
  "local_at h m sec =
     \<lparr>tm_hour = h, tm_minute = m, tm_second = sec, tm_weekday = 7, tm_day = 15,
      tm_month = 6, tm_year = 2024,
      tm_hourFormat12 = (if h = 0 then 12 else if 12 <s h then h - 12 else h)\<rparr>"

text \<open>A pass at \<open>ms\<close> milliseconds with one photocell reading throughout.\<close>

definition cycle_at :: "uint32 \<Rightarrow> TinyGPSPlus \<Rightarrow> tm \<Rightarrow> int16 \<Rightarrow> cycle" where
  "cycle_at ms g local light =
     \<lparr>millis_loop = ms, gps_decoded = g, local_time = local, light_color = light,
      millis_date = ms, millis_time = ms, millis_sats = ms, light_backlight = light\<rparr>"

text \<open>The sketch after its first synchronisation, with white digits and no redraw pending.\<close>

definition clock_synced :: clock where
  "clock_synced = (init_clock (gps_fix 7) rtc_running)\<lparr>rtcSet := True, newboot := False\<rparr>"

text \<open>
  Four passes in a dim room around 20:00: the last one of hour 19, two within the first
  second of hour 20, and one in the second after.
\<close>

definition pass_1959 :: cycle where
  "pass_1959 = cycle_at 3599000 (gps_fix 7) (local_at 19 59 59) 40"

definition pass_2000 :: cycle where
  "pass_2000 = cycle_at 3600000 (gps_fix 7) (local_at 20 0 0) 40"

definition pass_2000_again :: cycle where
  "pass_2000_again = cycle_at 3600200 (gps_fix 7) (local_at 20 0 0) 40"

definition pass_2001 :: cycle where
  "pass_2001 = cycle_at 3601000 (gps_fix 7) (local_at 20 0 1) 40"

text \<open>The state in which a pass draws the date region, and the one for the time region.\<close>

abbreviation at_date :: "cycle \<Rightarrow> clock \<Rightarrow> clock" where
  "at_date c s \<equiv> setNumberColor (light_color c) (local_time c) (loop_head c s)"

abbreviation at_time :: "cycle \<Rightarrow> clock \<Rightarrow> clock" where
  "at_time c s \<equiv> snd (tftDisplayDate (millis_date c) (local_time c) (at_date c s))"

section \<open>Boot validation\<close>

text \<open>
  C9. \<open>checkRTCset\<close>, called on a clock that is not yet set (as \<open>setup\<close> calls it, with the
  initial \<open>rtcSet = false\<close>), leaves it unset exactly when the RTC sample reads hour 0,
  minute 0, second 0 and a year below 2010, and sets it for every other sample.
\<close>

theorem checkRTCset_unsynced_iff_default:
  "\<not> rtcSet s \<Longrightarrow>
   rtcSet (checkRTCset s) \<longleftrightarrow>
     \<not> (dt_hour (rtc s) = 0 \<and> dt_minute (rtc s) = 0 \<and> dt_second (rtc s) = 0
        \<and> dt_year (rtc s) < 2010)"
  by (simp add: checkRTCset_def Let_def)

theorem checkRTCset_unsynced_iff_default_witness:
  "\<not> rtcSet (init_clock (gps_nofix 0) rtc_default)
   \<and> \<not> rtcSet (init_clock (gps_nofix 0) rtc_running)
   \<and> \<not> rtcSet (checkRTCset (init_clock (gps_nofix 0) rtc_default))
   \<and> rtcSet (checkRTCset (init_clock (gps_nofix 0) rtc_running))"
  using checkRTCset_unsynced_iff_default [of "init_clock (gps_nofix 0) rtc_default"]
        checkRTCset_unsynced_iff_default [of "init_clock (gps_nofix 0) rtc_running"]
  by (simp add: rtc_default_def rtc_running_def init_clock_def)

section \<open>Backlight staircase\<close>

lemma sint16_thresholds:
  "(100 <s (r::int16)) = (100 < sint r)" "(r \<le>s 100) = (sint r \<le> 100)"
  "(r \<le>s 50) = (sint r \<le> 50)" "(r <s 20) = (sint r < 20)"
  by (simp_all add: word_sless_alt word_sle_eq)

text \<open>
  C8. For every photocell reading \<open>r\<close> the four overwriting rules of
  \<open>setBackLightBrightness\<close> leave 255 when \<open>r > 100\<close>, 50 when \<open>50 < r \<le> 100\<close>, 20 when
  \<open>20 \<le> r \<le> 50\<close> and 5 when \<open>r < 20\<close>, and that value is written to the backlight pin;
  the readings 5, 30, 60, 150 give 5, 20, 50, 255 and the boundary readings 20, 50, 100
  give 20, 20, 50.
\<close>

theorem setBackLightBrightness_staircase:
  "backlightVal (setBackLightBrightness r s) =
     (if 100 < sint r then 255 else if 50 < sint r then 50 else if 20 \<le> sint r then 20 else 5)
   \<and> backlight (setBackLightBrightness r s) = backlightVal (setBackLightBrightness r s)
   \<and> map (\<lambda>x. backlightVal (setBackLightBrightness x s)) [5, 30, 60, 150, 20, 50, 100]
       = [5, 20, 50, 255, 20, 20, 50]"
  by (simp add: setBackLightBrightness_def Let_def sint16_thresholds)

theorem setBackLightBrightness_staircase_witness:
  "backlightVal (setBackLightBrightness 60 clock_synced) = 50
   \<and> backlight (setBackLightBrightness 60 clock_synced) = 50"
  using setBackLightBrightness_staircase [of 60 clock_synced]
  by simp

section \<open>RTC write policy\<close>

text \<open>
  C2. \<open>setRTCfromGPS\<close> writes the RTC if and only if the receiver's date and time are both
  valid. When they are, the RTC takes the receiver's sample and nothing else but the
  console changes; when either is not, only the console changes: the intent and the
  refusal are logged, and the globals and the RTC stay as they were.
\<close>

theorem setRTCfromGPS_writes_iff_valid:
  "(rtc_writes (setRTCfromGPS s) \<noteq> rtc_writes s
      \<longleftrightarrow> date_isValid (gps s) \<and> time_isValid (gps s))
   \<and> (date_isValid (gps s) \<and> time_isValid (gps s) \<longrightarrow>
        setRTCfromGPS s =
          s\<lparr>rtc := gps_DateTime (gps s),
            rtc_writes := rtc_writes s @ [gps_DateTime (gps s)],
            serial := serial s @ [SPrintln ''Setting RTC from GPS'', SPrintln '''',
                                  SPrintln ''RTC set from GPS'']\<rparr>)
   \<and> (\<not> (date_isValid (gps s) \<and> time_isValid (gps s)) \<longrightarrow>
        setRTCfromGPS s =
          s\<lparr>serial := serial s @ [SPrintln ''Setting RTC from GPS'', SPrintln '''',
                                  SPrintln ''No GPS fix yet. Can't set RTC yet.'']\<rparr>)"
  by (auto simp add: setRTCfromGPS_def rtc_adjust_def Let_def)

theorem setRTCfromGPS_writes_iff_valid_witness:
  "date_isValid (gps clock_synced) \<and> time_isValid (gps clock_synced)
   \<and> rtc_writes (setRTCfromGPS clock_synced) = [gps_DateTime (gps_fix 7)]
   \<and> \<not> date_isValid (gps (init_clock (gps_nofix 0) rtc_default))
   \<and> rtc_writes (setRTCfromGPS (init_clock (gps_nofix 0) rtc_default)) = []
   \<and> rtc (setRTCfromGPS (init_clock (gps_nofix 0) rtc_default)) = rtc_default"
  using setRTCfromGPS_writes_iff_valid [of clock_synced]
        setRTCfromGPS_writes_iff_valid [of "init_clock (gps_nofix 0) rtc_default"]
  by (simp add: clock_synced_def init_clock_def gps_fix_def gps_nofix_def)

section \<open>Seven-segment renderer: digit places\<close>

lemma unat_pos_dec: "(0::uint8) < cnt \<Longrightarrow> unat cnt = Suc (unat (cnt - 1))"
  by (metis Suc_pred' unat_gt_0 unat_minus_one word_gt_0)

lemma length_draw7_cells: "length (draw7_cells n nD d cnt num x) = unat cnt"
proof (induction n nD d cnt num x rule: draw7_cells.induct)
  case (1 n nD d cnt num xLoc)
  show ?case
  proof (cases "0 < cnt")
    case True
    with "1.IH" unat_pos_dec [OF True] show ?thesis
      by (subst draw7_cells.simps) (simp add: Let_def)
  next
    case False
    then have "cnt = 0" by (simp add: word_gt_0)
    then show ?thesis by (subst draw7_cells.simps) simp
  qed
qed

lemma clamp_1_10_range: "1 \<le> clamp_1_10 v \<and> clamp_1_10 v \<le> 10"
  unfolding clamp_1_10_def Let_def
  by (auto simp: word_le_nat_alt word_less_nat_alt)

lemma draw7_cnt_pos: "0 < draw7_cnt nD"
  using clamp_1_10_range [of "ucast (abs16 (scast nD))"]
  by (auto simp: draw7_cnt_def word_le_nat_alt word_less_nat_alt)

lemma abs16_eq_0: "abs16 n = 0 \<longleftrightarrow> n = 0"
  by (auto simp: abs16_def)

lemma mod10_small: "\<not> 9 < (num::uint16) \<Longrightarrow> num mod 10 = num"
  by (simp add: word_unat_eq_iff unat_mod word_less_nat_alt)

text \<open>With a negative \<open>nD\<close>, every place of a remaining number 0 is blank.\<close>

lemma blank_cells:
  "nD <s 0 \<Longrightarrow> \<not> n <s 0 \<Longrightarrow>
   map fst (draw7_cells n nD d cnt 0 x) = replicate (unat cnt) 10"
proof (induction n nD d cnt "0 :: uint16" x rule: draw7_cells.induct)
  case (1 n nD d cnt xLoc)
  show ?case
  proof (cases "0 < cnt")
    case True
    have "map fst (draw7_cells n nD d (cnt - 1) 0 (xLoc - d)) = replicate (unat (cnt - 1)) 10"
      using "1.hyps" [OF True] "1.prems" by simp
    with True unat_pos_dec [OF True] "1.prems" show ?thesis
      by (subst draw7_cells.simps) (simp add: Let_def)
  next
    case False
    then have "cnt = 0" by (simp add: word_gt_0)
    then show ?thesis by (subst draw7_cells.simps) simp
  qed
qed

text \<open>The place drawn first, the least significant one.\<close>

lemma first_cell:
  "0 < cnt \<Longrightarrow>
   fst (hd (draw7_cells n nD d cnt num x)) =
     (if 9 < num then num mod 10
      else if cnt - 1 = 0 \<and> n <s 0 then 11
      else if nD <s 0 \<and> num = 0 then 10
      else num)"
  by (subst draw7_cells.simps) (simp add: Let_def)

text \<open>The place drawn last, the most significant one, of a negative number that fits.\<close>

lemma minus_cell:
  "n <s 0 \<Longrightarrow> 0 < cnt \<Longrightarrow> unat num < 10 ^ unat cnt \<Longrightarrow>
   fst (last (draw7_cells n nD d cnt num x)) = 11"
proof (induction n nD d cnt num x rule: draw7_cells.induct)
  case (1 n nD d cnt num xLoc)
  have u: "unat cnt = Suc (unat (cnt - 1))"
    using "1.prems"(2) by (rule unat_pos_dec)
  show ?case
  proof (cases "cnt - 1 = 0")
    case True
    then have "unat num < 10" using "1.prems"(3) u by simp
    then have "\<not> 9 < num" by (simp add: word_less_nat_alt)
    moreover have "draw7_cells n nD d 0 (num div 10) (xLoc - d) = []"
      by (subst draw7_cells.simps) simp
    ultimately show ?thesis
      using "1.prems" True by (subst draw7_cells.simps) (simp add: Let_def)
  next
    case False
    then have pos: "0 < cnt - 1" by (simp add: word_gt_0)
    have "unat (num div 10) < 10 ^ unat (cnt - 1)"
      using "1.prems"(3) u by (simp add: unat_div less_mult_imp_div_less mult.commute)
    then have ih: "fst (last (draw7_cells n nD d (cnt - 1) (num div 10) (xLoc - d))) = 11"
      using "1.IH" "1.prems"(1,2) pos by simp
    have "0 < unat (cnt - 1)"
      using pos by (simp add: unat_gt_0 word_gt_0)
    then have ne: "draw7_cells n nD d (cnt - 1) (num div 10) (xLoc - d) \<noteq> []"
      using length_draw7_cells [of n nD d "cnt - 1" "num div 10" "xLoc - d"] by auto
    show ?thesis
      using "1.prems"(2) ih ne by (subst draw7_cells.simps) (simp add: Let_def)
  qed
qed

lemma draw7_places_nonempty: "draw7_places n x cS nD \<noteq> []"
proof -
  have "length (draw7_places n x cS nD) = unat (draw7_cnt nD)"
    by (simp add: draw7_places_def Let_def length_draw7_cells)
  moreover have "0 < unat (draw7_cnt nD)"
    using draw7_cnt_pos [of nD] by (simp add: unat_gt_0 word_gt_0)
  ultimately show ?thesis by auto
qed

lemmas draw7_eval =
  draw7_glyphs_def draw7_places_def draw7_cnt_def clamp_1_10_def abs16_def Let_def
  word_sless_alt draw7_cells.simps

text \<open>
  C4. \<open>draw7Number\<close> renders 7 with \<open>nD = -3\<close> as blank, blank, 7; 7 with \<open>nD = 3\<close> as
  0, 0, 7; and -42 with \<open>nD = -3\<close> as minus, 4, 2 (glyph 10 is the blank, glyph 11 the
  minus sign, most significant place first). With a negative \<open>nD\<close> every place at which
  the remaining number is zero is blank, the least significant place too: the value 0
  renders as blanks only, while the zero of 10 is shown. The least significant place of
  a non-zero value shows its last digit, unless that only place holds the minus sign.
  For a negative value of magnitude below 10 to the power of the field width, the most
  significant place shows the minus sign.
\<close>

theorem draw7Number_glyphs:
  "draw7_glyphs 7 cS (- 3) = [10, 10, 7]
   \<and> draw7_glyphs 7 cS 3 = [0, 0, 7]
   \<and> draw7_glyphs (- 42) cS (- 3) = [11, 4, 2]
   \<and> nums ! 10 = 0x00 \<and> nums ! 11 = 0x40
   \<and> (nD <s 0 \<longrightarrow> draw7_glyphs 0 cS nD = replicate (unat (draw7_cnt nD)) 10)
   \<and> draw7_glyphs 10 cS (- 3) = [10, 1, 0]
   \<and> (n \<noteq> 0 \<and> \<not> (n <s 0 \<and> draw7_cnt nD = 1) \<longrightarrow>
        last (draw7_glyphs n cS nD) = abs16 n mod 10)
   \<and> (n <s 0 \<and> unat (abs16 n) < 10 ^ unat (draw7_cnt nD) \<longrightarrow>
        hd (draw7_glyphs n cS nD) = 11)"
proof -
  have e1: "draw7_glyphs 7 cS (- 3) = [10, 10, 7]" by (simp add: draw7_eval)
  have e2: "draw7_glyphs 7 cS 3 = [0, 0, 7]" by (simp add: draw7_eval)
  have e3: "draw7_glyphs (- 42) cS (- 3) = [11, 4, 2]" by (simp add: draw7_eval)
  have e4: "draw7_glyphs 10 cS (- 3) = [10, 1, 0]" by (simp add: draw7_eval)
  have tab: "nums ! 10 = 0x00 \<and> nums ! 11 = 0x40" by (simp add: nums_def)
  have zero: "draw7_glyphs 0 cS nD = replicate (unat (draw7_cnt nD)) 10" if "nD <s 0"
  proof -
    have "\<not> (0::int16) <s 0" by (simp add: word_sless_alt)
    then show ?thesis
      using that blank_cells [of nD 0]
      by (simp add: draw7_glyphs_def draw7_places_def abs16_def Let_def)
  qed
  have lsd: "last (draw7_glyphs n cS nD) = abs16 n mod 10"
    if "n \<noteq> 0" and "\<not> (n <s 0 \<and> draw7_cnt nD = 1)"
  proof -
    have "last (draw7_glyphs n cS nD) = fst (hd (draw7_places n 0 cS nD))"
      using draw7_places_nonempty [of n 0 cS nD]
      by (simp add: draw7_glyphs_def last_rev hd_map)
    also have "\<dots> = abs16 n mod 10"
      using that first_cell [OF draw7_cnt_pos, of n nD "draw7_d cS" nD "abs16 n"]
      by (auto simp: draw7_places_def Let_def abs16_eq_0 mod10_small)
    finally show ?thesis .
  qed
  have msd: "hd (draw7_glyphs n cS nD) = 11"
    if "n <s 0" and "unat (abs16 n) < 10 ^ unat (draw7_cnt nD)"
  proof -
    have "hd (draw7_glyphs n cS nD) = fst (last (draw7_places n 0 cS nD))"
      using draw7_places_nonempty [of n 0 cS nD]
      by (simp add: draw7_glyphs_def hd_rev last_map)
    also have "\<dots> = 11"
      using that minus_cell [OF that(1) draw7_cnt_pos, of "abs16 n" nD nD]
      by (simp add: draw7_places_def Let_def)
    finally show ?thesis .
  qed
  from e1 e2 e3 e4 tab zero lsd msd show ?thesis by blast
qed

theorem draw7Number_glyphs_witness:
  "(- 3 :: int8) <s 0
   \<and> draw7_glyphs 0 5 (- 3) = [10, 10, 10]
   \<and> (120 :: int16) \<noteq> 0 \<and> last (draw7_glyphs 120 5 (- 3)) = 0
   \<and> (- 42 :: int16) <s 0 \<and> unat (abs16 (- 42)) < 10 ^ unat (draw7_cnt (- 3))
   \<and> hd (draw7_glyphs (- 42) 5 (- 3)) = 11"
proof -
  have h1: "(- 3 :: int8) <s 0" by (simp add: word_sless_alt)
  have h2: "(120 :: int16) \<noteq> 0 \<and> \<not> ((120 :: int16) <s 0 \<and> draw7_cnt (- 3) = 1)"
    by (simp add: word_sless_alt)
  have h3: "(- 42 :: int16) <s 0 \<and> unat (abs16 (- 42)) < 10 ^ unat (draw7_cnt (- 3))"
    by (simp add: word_sless_alt abs16_def draw7_cnt_def clamp_1_10_def)
  have c3: "unat (draw7_cnt (- 3)) = 3" "abs16 120 mod 10 = 0"
    by (simp_all add: word_sless_alt abs16_def draw7_cnt_def clamp_1_10_def)
  show ?thesis
    using draw7Number_glyphs [of 5 "- 3" 120] draw7Number_glyphs [of 5 "- 3" "- 42"] h1 h2 h3 c3
    by (simp add: numeral_3_eq_3)
qed

text \<open>
  The claimed true zero at the least significant place is not drawn for the value 0:
  all three places are blank. A negative value wider than the field shows no minus sign.
\<close>

theorem draw7Number_zero_blank_counterexample:
  "last (draw7_glyphs 0 5 (- 3)) = 10 \<and> last (draw7_glyphs 0 5 (- 3)) \<noteq> 0
   \<and> draw7_glyphs 0 5 (- 3) = [10, 10, 10]
   \<and> draw7_glyphs (- 420) 5 2 = [2, 0]"
  by (simp add: draw7_eval)

section \<open>Seven-segment renderer: sizes\<close>

text \<open>
  C5. The number of digit places is the magnitude of \<open>nD\<close> brought between 1 and 10.
  The sizes are not taken from the clamped character size: with \<open>cS = 20\<close> the clamped
  \<open>c\<close> is 10, yet the segments are 100 wide, 40 thick and 140 high and the digits 222
  apart, where the size 10 gives 50, 20, 70 and 112.
\<close>

theorem draw7Number_sizes_unclamped:
  "length (draw7_places n xLoc cS nD) = unat (draw7_cnt nD)
   \<and> 1 \<le> draw7_cnt nD \<and> draw7_cnt nD \<le> 10
   \<and> draw7_c 20 = 10
   \<and> draw7_S2 20 = 100 \<and> draw7_S3 20 = 40 \<and> draw7_S4 20 = 140 \<and> draw7_d 20 = 222
   \<and> draw7_S2 10 = 50 \<and> draw7_S3 10 = 20 \<and> draw7_S4 10 = 70 \<and> draw7_d 10 = 112
   \<and> map snd (draw7_places 12 0 20 2) = [222, 0]
   \<and> take 2 (draw7Number 12 0 125 20 ILI9340_WHITE ILI9340_BLACK 2)
       = [DrawFastHLine 263 125 100 ILI9340_WHITE, DrawFastHLine 262 126 102 ILI9340_WHITE]"
proof -
  have "length (draw7_places n xLoc cS nD) = unat (draw7_cnt nD)"
    by (simp add: draw7_places_def Let_def length_draw7_cells)
  moreover have "1 \<le> draw7_cnt nD \<and> draw7_cnt nD \<le> 10"
    unfolding draw7_cnt_def by (rule clamp_1_10_range)
  moreover have "draw7_c 20 = 10
     \<and> draw7_S2 20 = 100 \<and> draw7_S3 20 = 40 \<and> draw7_S4 20 = 140 \<and> draw7_d 20 = 222
     \<and> draw7_S2 10 = 50 \<and> draw7_S3 10 = 20 \<and> draw7_S4 10 = 70 \<and> draw7_d 10 = 112
     \<and> map snd (draw7_places 12 0 20 2) = [222, 0]"
    by code_simp
  moreover have "take 2 (draw7Number 12 0 125 20 ILI9340_WHITE ILI9340_BLACK 2)
       = [DrawFastHLine 263 125 100 ILI9340_WHITE, DrawFastHLine 262 126 102 ILI9340_WHITE]"
    by code_simp
  ultimately show ?thesis by simp
qed

section \<open>What each routine leaves alone\<close>

lemma setRTCfromGPS_keeps [simp]:
  "rtcSet (setRTCfromGPS s) = rtcSet s"
  "numberColor (setRTCfromGPS s) = numberColor s"
  "colorChange (setRTCfromGPS s) = colorChange s"
  "newboot (setRTCfromGPS s) = newboot s"
  "currentMillis (setRTCfromGPS s) = currentMillis s"
  "gps (setRTCfromGPS s) = gps s"
  by (simp_all add: setRTCfromGPS_def rtc_adjust_def Let_def)

lemma checkRTCset_keeps [simp]:
  "numberColor (checkRTCset s) = numberColor s"
  "colorChange (checkRTCset s) = colorChange s"
  "newboot (checkRTCset s) = newboot s"
  "currentMillis (checkRTCset s) = currentMillis s"
  "rtc_writes (checkRTCset s) = rtc_writes s"
  "rtcSet s \<Longrightarrow> rtcSet (checkRTCset s)"
  by (simp_all add: checkRTCset_def Let_def)

lemma loop_head_keeps [simp]:
  "currentMillis (loop_head c s) = millis_loop c"
  "gps (loop_head c s) = gps_decoded c"
  "numberColor (loop_head c s) = numberColor s"
  "colorChange (loop_head c s) = colorChange s"
  "newboot (loop_head c s) = newboot s"
  "rtcSet s \<Longrightarrow> rtcSet (loop_head c s)"
  by (simp_all add: loop_head_def Let_def)

lemma setNumberColor_keeps [simp]:
  "rtcSet (setNumberColor r l s) = rtcSet s"
  by (simp add: setNumberColor_def Let_def)

lemma setNumberColor_color:
  "numberColor (setNumberColor r l s) =
     (if (20 \<le>s tm_hour l \<or> tm_hour l <s 6) \<and> r \<le>s 100 then ILI9340_RED else ILI9340_WHITE)"
  by (simp add: setNumberColor_def Let_def)

lemma setNumberColor_holdoff:
  "colorChange (setNumberColor r l s) =
     (if numberColor (setNumberColor r l s) \<noteq> numberColor s then 2 else colorChange s)"
  by (simp add: setNumberColor_def Let_def)

lemma tftDisplayDate_keeps [simp]:
  "rtcSet (snd (tftDisplayDate ms l s)) = rtcSet s"
  "numberColor (snd (tftDisplayDate ms l s)) = numberColor s"
  by (simp_all add: tftDisplayDate_def Let_def)

lemma tftDisplayTime_keeps [simp]:
  "rtcSet (snd (tftDisplayTime ms l s)) = rtcSet s"
  "numberColor (snd (tftDisplayTime ms l s)) = numberColor s"
  by (simp_all add: tftDisplayTime_def Let_def)

lemma setBackLightBrightness_keeps [simp]:
  "rtcSet (setBackLightBrightness r s) = rtcSet s"
  "numberColor (setBackLightBrightness r s) = numberColor s"
  "colorChange (setBackLightBrightness r s) = colorChange s"
  by (simp_all add: setBackLightBrightness_def Let_def)

lemma syncOnBoot_keeps [simp]:
  "rtcSet (syncOnBoot s) = rtcSet s"
  "numberColor (syncOnBoot s) = numberColor s"
  "colorChange (syncOnBoot s) = colorChange s"
  by (simp_all add: syncOnBoot_def Let_def)

lemma scheduledSync_keeps [simp]:
  "rtcSet (scheduledSync l s) = rtcSet s"
  "numberColor (scheduledSync l s) = numberColor s"
  "colorChange (scheduledSync l s) = colorChange s"
  by (simp_all add: scheduledSync_def Let_def)

lemma loop_Inr:
  assumes "loop c s = Inr (f, s')"
  shows "date_region f = fst (tftDisplayDate (millis_date c) (local_time c) (at_date c s))"
    and "time_region f = fst (tftDisplayTime (millis_time c) (local_time c) (at_time c s))"
    and "rtcSet s' = rtcSet (loop_head c s)"
    and "numberColor s' = numberColor (at_date c s)"
    and "colorChange s' =
           colorChange (snd (tftDisplayTime (millis_time c) (local_time c) (at_time c s)))"
  using assms
  by (auto simp: loop_def Let_def case_prod_beta split: if_splits)

lemma loop_halts_iff:
  "isl (loop c s) \<longleftrightarrow> 5000 < millis_loop c \<and> charsProcessed (gps_decoded c) < 10"
  by (simp add: loop_def Let_def case_prod_beta)

lemma loop_runs:
  "\<not> (5000 < millis_loop c \<and> charsProcessed (gps_decoded c) < 10) \<Longrightarrow>
   loop c s = Inr (loop_frame c s, loop_state c s)"
  by (simp add: loop_frame_def loop_state_def loop_def Let_def case_prod_beta)

section \<open>What is shown before the RTC is set\<close>

lemma loop_Inr_seconds:
  "loop c s = Inr (f, s') \<Longrightarrow> seconds_region f = secondDotDisplay2 (local_time c)"
  by (auto simp: loop_def Let_def case_prod_beta split: if_splits)

lemma secondDotDisplay2_tick:
  "DrawFastVLine (tm_second l * 4) 80 5 ILI9340_GREEN \<in> set (secondDotDisplay2 l)"
  by (simp add: secondDotDisplay2_def)

text \<open>
  C1. In every pass of \<open>loop\<close> that leaves the RTC not set, the date region and the time
  region each draw the text "Waiting for GPS Fix" and nothing else: no digit and no
  date is drawn in them. The seconds animation has no such guard: the same pass draws
  what \<open>secondDotDisplay2\<close> makes of the local time, with the green tick at
  \<open>x = 4 * second(local)\<close>.
\<close>

theorem loop_unsynced_shows_waiting:
  assumes "loop c s = Inr (f, s')" and "\<not> rtcSet s'"
  shows "date_region f =
           [SetCursor 65 50, SetTextColor (numberColor s') ILI9340_BLACK, SetTextSize 1,
            Println ''Waiting for GPS Fix'']
         \<and> time_region f =
           [SetCursor 30 150, SetTextColor (numberColor s') ILI9340_BLACK, SetTextSize 2,
            Println ''Waiting for GPS Fix'']
         \<and> seconds_region f = secondDotDisplay2 (local_time c)
         \<and> DrawFastVLine (tm_second (local_time c) * 4) 80 5 ILI9340_GREEN
              \<in> set (seconds_region f)"
proof -
  have u: "\<not> rtcSet (at_date c s)"
    using loop_Inr(3) [OF assms(1)] assms(2) by simp
  then have d: "tftDisplayDate (millis_date c) (local_time c) (at_date c s) =
      ([SetCursor 65 50, SetTextColor (numberColor (at_date c s)) ILI9340_BLACK, SetTextSize 1,
        Println ''Waiting for GPS Fix''], at_date c s)"
    by (simp add: tftDisplayDate_def)
  then have t: "tftDisplayTime (millis_time c) (local_time c) (at_time c s) =
      ([SetCursor 30 150, SetTextColor (numberColor (at_date c s)) ILI9340_BLACK, SetTextSize 2,
        Println ''Waiting for GPS Fix''], at_date c s)"
    using u by (simp add: tftDisplayTime_def)
  have regions: "date_region f =
           [SetCursor 65 50, SetTextColor (numberColor s') ILI9340_BLACK, SetTextSize 1,
            Println ''Waiting for GPS Fix'']
         \<and> time_region f =
           [SetCursor 30 150, SetTextColor (numberColor s') ILI9340_BLACK, SetTextSize 2,
            Println ''Waiting for GPS Fix'']"
    using loop_Inr(1,2,4) [OF assms(1)] d t by simp
  have secs: "seconds_region f = secondDotDisplay2 (local_time c)"
    using assms(1) by (rule loop_Inr_seconds)
  show ?thesis
    using regions secs secondDotDisplay2_tick [of "local_time c"] by simp
qed

theorem loop_unsynced_shows_waiting_witness:
  "loop (cycle_at 3000 (gps_nofix 120) (local_at 0 0 7) 300) (init_clock (gps_nofix 0) rtc_default)
     = Inr (loop_frame (cycle_at 3000 (gps_nofix 120) (local_at 0 0 7) 300)
              (init_clock (gps_nofix 0) rtc_default),
            loop_state (cycle_at 3000 (gps_nofix 120) (local_at 0 0 7) 300)
              (init_clock (gps_nofix 0) rtc_default))
   \<and> \<not> rtcSet (loop_state (cycle_at 3000 (gps_nofix 120) (local_at 0 0 7) 300)
                  (init_clock (gps_nofix 0) rtc_default))
   \<and> time_region (loop_frame (cycle_at 3000 (gps_nofix 120) (local_at 0 0 7) 300)
                    (init_clock (gps_nofix 0) rtc_default))
       = [SetCursor 30 150, SetTextColor ILI9340_WHITE ILI9340_BLACK, SetTextSize 2,
          Println ''Waiting for GPS Fix'']
   \<and> DrawFastVLine 28 80 5 ILI9340_GREEN
        \<in> set (seconds_region (loop_frame (cycle_at 3000 (gps_nofix 120) (local_at 0 0 7) 300)
                                 (init_clock (gps_nofix 0) rtc_default)))"
proof -
  let ?c = "cycle_at 3000 (gps_nofix 120) (local_at 0 0 7) 300"
  let ?s = "init_clock (gps_nofix 0) rtc_default"
  have run: "loop ?c ?s = Inr (loop_frame ?c ?s, loop_state ?c ?s)"
    by (rule loop_runs) (simp add: cycle_at_def)
  have "\<not> rtcSet (loop_head ?c ?s)"
    by (simp add: loop_head_def checkRTCset_def setRTCfromGPS_def init_clock_def
                  gps_nofix_def rtc_default_def Let_def)
  then have uns: "\<not> rtcSet (loop_state ?c ?s)"
    using loop_Inr(3) [OF run] by simp
  have "numberColor (at_date ?c ?s) = ILI9340_WHITE"
    by (simp add: setNumberColor_color cycle_at_def local_at_def word_sless_alt word_sle_eq)
  then have col: "numberColor (loop_state ?c ?s) = ILI9340_WHITE"
    using loop_Inr(4) [OF run] by simp
  have sec: "tm_second (local_time ?c) * 4 = 28"
    by (simp add: cycle_at_def local_at_def)
  note shown = loop_unsynced_shows_waiting [OF run uns]
  from shown have text_only: "time_region (loop_frame ?c ?s) =
      [SetCursor 30 150, SetTextColor ILI9340_WHITE ILI9340_BLACK, SetTextSize 2,
       Println ''Waiting for GPS Fix'']"
    by (simp only: col)
  from shown have "DrawFastVLine (tm_second (local_time ?c) * 4) 80 5 ILI9340_GREEN
      \<in> set (seconds_region (loop_frame ?c ?s))"
    by (rule conjunct2 [THEN conjunct2, THEN conjunct2])
  then have tick: "DrawFastVLine 28 80 5 ILI9340_GREEN
      \<in> set (seconds_region (loop_frame ?c ?s))"
    by (simp only: sec)
  from run uns text_only tick show ?thesis
    by (intro conjI)
qed

text \<open>
  A pass seven seconds into the minute on a clock that is not set, before and after:
  the seconds animation is drawn from the local time, with its green tick at x = 28.
\<close>

theorem loop_unsynced_draws_seconds_counterexample:
  "\<not> rtcSet (init_clock (gps_nofix 0) rtc_default)
   \<and> \<not> rtcSet (loop_state (cycle_at 3000 (gps_nofix 120) (local_at 0 0 7) 300)
                  (init_clock (gps_nofix 0) rtc_default))
   \<and> tm_second (local_time (cycle_at 3000 (gps_nofix 120) (local_at 0 0 7) 300)) = 7
   \<and> seconds_region (loop_frame (cycle_at 3000 (gps_nofix 120) (local_at 0 0 7) 300)
                       (init_clock (gps_nofix 0) rtc_default))
       = [DrawFastVLine 20 80 4 ILI9340_BLACK, DrawFastVLine 24 80 3 ILI9340_BLACK,
          DrawFastVLine 28 80 5 ILI9340_GREEN, DrawFastVLine 32 83 2 ILI9340_GREEN]"
proof -
  let ?c = "cycle_at 3000 (gps_nofix 120) (local_at 0 0 7) 300"
  let ?s = "init_clock (gps_nofix 0) rtc_default"
  have run: "loop ?c ?s = Inr (loop_frame ?c ?s, loop_state ?c ?s)"
    by (rule loop_runs) (simp add: cycle_at_def)
  have before: "\<not> rtcSet ?s"
    by (simp add: init_clock_def)
  have "\<not> rtcSet (loop_head ?c ?s)"
    by (simp add: loop_head_def checkRTCset_def setRTCfromGPS_def init_clock_def
                  gps_nofix_def rtc_default_def Let_def)
  then have after: "\<not> rtcSet (loop_state ?c ?s)"
    using loop_Inr(3) [OF run] by simp
  have sec: "tm_second (local_time ?c) = 7"
    by (simp add: cycle_at_def local_at_def)
  have "secondDotDisplay2 (local_time ?c)
       = [DrawFastVLine 20 80 4 ILI9340_BLACK, DrawFastVLine 24 80 3 ILI9340_BLACK,
          DrawFastVLine 28 80 5 ILI9340_GREEN, DrawFastVLine 32 83 2 ILI9340_GREEN]"
    by (simp add: secondDotDisplay2_def cycle_at_def local_at_def)
  then have drawn: "seconds_region (loop_frame ?c ?s)
       = [DrawFastVLine 20 80 4 ILI9340_BLACK, DrawFastVLine 24 80 3 ILI9340_BLACK,
          DrawFastVLine 28 80 5 ILI9340_GREEN, DrawFastVLine 32 83 2 ILI9340_GREEN]"
    using loop_Inr_seconds [OF run] by simp
  show ?thesis
    using before after sec drawn by simp
qed

section \<open>The wiring check\<close>

text \<open>
  C7. A pass of \<open>loop\<close> halts exactly when the millisecond counter sampled at its start
  is above 5000 and fewer than 10 characters have been decoded from the receiver; it
  then logs the wiring message and stops in the state reached. Ten decoded characters
  or more prevent the halt; fewer than ten, though not zero, do not.
\<close>

theorem loop_halts_iff_under_ten_chars:
  "(isl (loop c s) \<longleftrightarrow> 5000 < millis_loop c \<and> charsProcessed (gps_decoded c) < 10)
   \<and> (5000 < millis_loop c \<and> charsProcessed (gps_decoded c) < 10 \<longrightarrow>
        loop c s =
          Inl (NoGPSDetected
                 ((loop_head c s)\<lparr>serial := serial (loop_head c s)
                                      @ [SPrintln ''No GPS detected: check wiring.'']\<rparr>)))"
  by (simp add: loop_def Let_def case_prod_beta)

theorem loop_halts_iff_under_ten_chars_witness:
  "isl (loop (cycle_at 6000 (gps_nofix 9) (local_at 12 0 7) 300) clock_synced)
   \<and> \<not> isl (loop (cycle_at 6000 (gps_nofix 10) (local_at 12 0 7) 300) clock_synced)
   \<and> \<not> isl (loop (cycle_at 5000 (gps_nofix 0) (local_at 12 0 7) 300) clock_synced)"
  using loop_halts_iff_under_ten_chars
          [of "cycle_at 6000 (gps_nofix 9) (local_at 12 0 7) 300" clock_synced]
        loop_halts_iff_under_ten_chars
          [of "cycle_at 6000 (gps_nofix 10) (local_at 12 0 7) 300" clock_synced]
        loop_halts_iff_under_ten_chars
          [of "cycle_at 5000 (gps_nofix 0) (local_at 12 0 7) 300" clock_synced]
  by (simp add: cycle_at_def gps_nofix_def)

text \<open>Five characters have been decoded after six seconds, and the sketch halts.\<close>

theorem loop_halts_with_traffic_counterexample:
  "charsProcessed (gps_decoded (cycle_at 6000 (gps_nofix 5) (local_at 12 0 7) 300)) = 5
   \<and> isl (loop (cycle_at 6000 (gps_nofix 5) (local_at 12 0 7) 300) clock_synced)"
  by (simp add: loop_halts_iff cycle_at_def gps_nofix_def)

section \<open>Boot acquisition\<close>

text \<open>
  C3. \<open>syncOnBoot\<close> writes the RTC exactly when the first-boot flag is set, the
  receiver's date and time are valid and the satellite count is above 4; it then writes
  the receiver's sample, clears the first-boot flag and resets the report timer. It
  never writes with 4 satellites or fewer, and it does not touch \<open>rtcSet\<close>. The head of
  \<open>loop\<close>, on a clock that is not set, writes the RTC from any valid date and time,
  whatever the satellite count.
\<close>

theorem syncOnBoot_writes_iff_trusted_fix:
  "(rtc_writes (syncOnBoot s) \<noteq> rtc_writes s \<longleftrightarrow>
      newboot s \<and> date_isValid (gps s) \<and> time_isValid (gps s)
      \<and> 4 <s (ucast (satellites_value (gps s)) :: int16))
   \<and> (newboot s \<and> date_isValid (gps s) \<and> time_isValid (gps s)
       \<and> 4 <s (ucast (satellites_value (gps s)) :: int16) \<longrightarrow>
        rtc_writes (syncOnBoot s) = rtc_writes s @ [gps_DateTime (gps s)]
        \<and> rtc (syncOnBoot s) = gps_DateTime (gps s)
        \<and> \<not> newboot (syncOnBoot s) \<and> syncTimer (syncOnBoot s) = 0)
   \<and> (rtcSet (syncOnBoot s) \<longleftrightarrow> rtcSet s)
   \<and> (\<not> rtcSet s \<and> date_isValid (gps s) \<and> time_isValid (gps s) \<longrightarrow>
        rtc_writes (loop_head c s) = rtc_writes s @ [gps_DateTime (gps s)])"
  by (auto simp add: syncOnBoot_def loop_head_def setRTCfromGPS_def rtc_adjust_def Let_def)

theorem syncOnBoot_writes_iff_trusted_fix_witness:
  "newboot (init_clock (gps_fix 6) rtc_default)
   \<and> rtc_writes (syncOnBoot (init_clock (gps_fix 6) rtc_default)) = [gps_DateTime (gps_fix 6)]
   \<and> \<not> newboot (syncOnBoot (init_clock (gps_fix 6) rtc_default))
   \<and> rtc_writes (syncOnBoot (init_clock (gps_fix 4) rtc_default)) = []
   \<and> \<not> rtcSet (init_clock (gps_fix 4) rtc_default)
   \<and> rtc_writes (loop_head (cycle_at 1000 (gps_fix 4) (local_at 12 0 7) 300)
                   (init_clock (gps_fix 4) rtc_default)) = [gps_DateTime (gps_fix 4)]"
  using syncOnBoot_writes_iff_trusted_fix
          [of "init_clock (gps_fix 6) rtc_default"
              "cycle_at 1000 (gps_fix 4) (local_at 12 0 7) 300"]
        syncOnBoot_writes_iff_trusted_fix
          [of "init_clock (gps_fix 4) rtc_default"
              "cycle_at 1000 (gps_fix 4) (local_at 12 0 7) 300"]
  by (simp add: init_clock_def gps_fix_def word_sless_alt)

text \<open>
  A first pass with a valid date and time and no satellite counted: the flag is set,
  the clock is not set, and the pass writes the RTC.
\<close>

theorem loop_writes_rtc_without_satellites_counterexample:
  "newboot (init_clock (gps_fix 0) rtc_default)
   \<and> \<not> rtcSet (init_clock (gps_fix 0) rtc_default)
   \<and> satellites_value (gps (init_clock (gps_fix 0) rtc_default)) = 0
   \<and> satellites_value (gps_decoded (cycle_at 1000 (gps_fix 0) (local_at 12 0 7) 300)) = 0
   \<and> rtc_writes (init_clock (gps_fix 0) rtc_default) = []
   \<and> rtc_writes (loop_state (cycle_at 1000 (gps_fix 0) (local_at 12 0 7) 300)
                    (init_clock (gps_fix 0) rtc_default)) = [gps_DateTime (gps_fix 0)]"
  by code_simp

section \<open>Redraw scheduling\<close>

lemma dec_not_positive:
  assumes "(x::int16) \<le>s 0" and "x \<noteq> - 32768"
  shows "\<not> 0 <s x - 1"
proof -
  have a: "sint x \<le> 0" using assms(1) by (simp add: word_sle_eq)
  have "sint x \<noteq> sint (- 32768 :: int16)"
    using assms(2) by (simp only: word_eq_iff_signed [symmetric] not_False_eq_True)
  then have b: "sint x \<noteq> - 32768" by simp
  have c: "- 32768 \<le> sint x" using sint_ge [of x] by simp
  have "sint (x - 1) = signed_take_bit 15 (sint x - 1)"
    by (simp add: sint_word_ariths)
  also have "\<dots> = sint x - 1"
    using a b c by (intro signed_take_bit_int_eq_self) simp_all
  finally show ?thesis using a by (simp add: word_sless_alt)
qed

lemma not_positive_iff: "(\<not> 0 <s (x::int16)) = (x \<le>s 0)"
  by (auto simp: word_sless_alt word_sle_eq)

lemma tftDisplayDate_holdoff:
  "colorChange (snd (tftDisplayDate ms l s)) = colorChange s
   \<or> colorChange (snd (tftDisplayDate ms l s)) = colorChange s - 1"
  by (simp add: tftDisplayDate_def Let_def)

lemma tftDisplayTime_idle:
  "rtcSet s \<Longrightarrow> tm_second l \<noteq> 0 \<Longrightarrow> 2500 \<le> ms \<Longrightarrow> colorChange s \<le>s 0 \<Longrightarrow>
   tftDisplayTime ms l s = ([], s)"
  by (simp add: tftDisplayTime_def not_positive_iff [symmetric] not_less)

lemma tftDisplayDate_idle:
  "rtcSet s \<Longrightarrow> \<not> (tm_hour l = 0 \<and> tm_minute l <s 5) \<Longrightarrow> 2500 \<le> ms \<Longrightarrow>
   colorChange s \<le>s 0 \<Longrightarrow> tftDisplayDate ms l s = ([], s)"
  by (auto simp add: tftDisplayDate_def not_positive_iff [symmetric] not_less)

text \<open>
  C10. Once the RTC is set, \<open>tftDisplayTime\<close> draws nothing and changes nothing when the
  second is not 0, \<open>millis()\<close> is at least 2500 and \<open>colorChange\<close> is not positive. So a
  pass of \<open>loop\<close> on a set clock draws nothing in the time region when the digit colour
  stays as it was, \<open>colorChange\<close> is not positive (and not the least \<open>int\<close>, which one more
  decrement would wrap), the second is not 0 and \<open>millis()\<close> is at least 2500.
\<close>

theorem time_region_idle:
  "(rtcSet s \<and> tm_second l \<noteq> 0 \<and> 2500 \<le> ms \<and> colorChange s \<le>s 0 \<longrightarrow>
      tftDisplayTime ms l s = ([], s))
   \<and> (loop c s = Inr (f, s') \<and> rtcSet s \<and> numberColor s' = numberColor s
       \<and> colorChange s \<le>s 0 \<and> colorChange s \<noteq> - 32768
       \<and> tm_second (local_time c) \<noteq> 0 \<and> 2500 \<le> millis_time c \<longrightarrow>
      time_region f = [])"
proof (intro conjI impI)
  assume "rtcSet s \<and> tm_second l \<noteq> 0 \<and> 2500 \<le> ms \<and> colorChange s \<le>s 0"
  then show "tftDisplayTime ms l s = ([], s)"
    by (simp add: tftDisplayTime_idle)
next
  assume h: "loop c s = Inr (f, s') \<and> rtcSet s \<and> numberColor s' = numberColor s
       \<and> colorChange s \<le>s 0 \<and> colorChange s \<noteq> - 32768
       \<and> tm_second (local_time c) \<noteq> 0 \<and> 2500 \<le> millis_time c"
  then have run: "loop c s = Inr (f, s')" by simp
  have same: "numberColor (at_date c s) = numberColor (loop_head c s)"
    using loop_Inr(4) [OF run] h by simp
  have cc: "colorChange (at_date c s) = colorChange s"
    using same by (simp add: setNumberColor_holdoff)
  have "colorChange (at_time c s) = colorChange s \<or> colorChange (at_time c s) = colorChange s - 1"
    using tftDisplayDate_holdoff [of "millis_date c" "local_time c" "at_date c s"] cc by simp
  then have "\<not> 0 <s colorChange (at_time c s)"
    using h dec_not_positive [of "colorChange s"] by (auto simp: not_positive_iff)
  then have "colorChange (at_time c s) \<le>s 0"
    by (simp add: not_positive_iff)
  moreover have "rtcSet (at_time c s)" using h by simp
  ultimately have "tftDisplayTime (millis_time c) (local_time c) (at_time c s) = ([], at_time c s)"
    using h by (intro tftDisplayTime_idle) simp_all
  then show "time_region f = []"
    using loop_Inr(2) [OF run] by simp
qed

theorem time_region_idle_witness:
  "loop (cycle_at 60000 (gps_fix 7) (local_at 12 30 7) 300) clock_synced
     = Inr (loop_frame (cycle_at 60000 (gps_fix 7) (local_at 12 30 7) 300) clock_synced,
            loop_state (cycle_at 60000 (gps_fix 7) (local_at 12 30 7) 300) clock_synced)
   \<and> rtcSet clock_synced
   \<and> numberColor (loop_state (cycle_at 60000 (gps_fix 7) (local_at 12 30 7) 300) clock_synced)
       = numberColor clock_synced
   \<and> colorChange clock_synced \<le>s 0 \<and> colorChange clock_synced \<noteq> - 32768
   \<and> tm_second (local_time (cycle_at 60000 (gps_fix 7) (local_at 12 30 7) 300)) \<noteq> 0
   \<and> (2500 :: uint32) \<le> millis_time (cycle_at 60000 (gps_fix 7) (local_at 12 30 7) 300)
   \<and> time_region (loop_frame (cycle_at 60000 (gps_fix 7) (local_at 12 30 7) 300) clock_synced)
       = []
   \<and> tftDisplayTime 60000 (local_at 12 30 7) clock_synced = ([], clock_synced)"
proof -
  let ?c = "cycle_at 60000 (gps_fix 7) (local_at 12 30 7) 300"
  have run: "loop ?c clock_synced = Inr (loop_frame ?c clock_synced, loop_state ?c clock_synced)"
    by (rule loop_runs) (simp add: cycle_at_def gps_fix_def)
  have "numberColor (at_date ?c clock_synced) = ILI9340_WHITE"
    by (simp add: setNumberColor_color cycle_at_def local_at_def word_sless_alt word_sle_eq)
  then have col: "numberColor (loop_state ?c clock_synced) = numberColor clock_synced"
    using loop_Inr(4) [OF run] by (simp add: clock_synced_def init_clock_def)
  have rest: "rtcSet clock_synced \<and> colorChange clock_synced \<le>s 0
      \<and> colorChange clock_synced \<noteq> - 32768
      \<and> tm_second (local_time ?c) \<noteq> 0 \<and> (2500 :: uint32) \<le> millis_time ?c"
    by (simp add: clock_synced_def init_clock_def cycle_at_def local_at_def word_sle_eq)
  have fn: "tm_second (local_at 12 30 7) \<noteq> 0 \<and> (2500 :: uint32) \<le> 60000"
    by (simp add: local_at_def)
  show ?thesis
    using time_region_idle [of clock_synced "local_at 12 30 7" "60000" ?c
                               "loop_frame ?c clock_synced" "loop_state ?c clock_synced"]
          run col rest fn
    by simp
qed

lemma tftDisplayDate_redraw:
  assumes "rtcSet s" and "0 <s colorChange s"
  shows "snd (tftDisplayDate ms l s) = s\<lparr>colorChange := colorChange s - 1\<rparr>"
    and "SetTextColor (numberColor s) ILI9340_BLACK \<in> set (fst (tftDisplayDate ms l s))"
    and "PrintDec (tm_year l) \<in> set (fst (tftDisplayDate ms l s))"
  using assms by (simp_all add: tftDisplayDate_def Let_def)

lemma tftDisplayTime_redraw:
  assumes "rtcSet s" and "0 <s colorChange s"
  shows "tftDisplayTime ms l s =
           ([FillCircle 115 150 4 (numberColor s), FillCircle 115 200 4 (numberColor s)]
              @ draw7Number (tm_hourFormat12 l) 0 125 5 (numberColor s) ILI9340_BLACK (- 2)
              @ draw7Number (tm_minute l) 130 125 5 (numberColor s) ILI9340_BLACK 2,
            s\<lparr>colorChange := colorChange s - 1\<rparr>)"
  using assms by (simp add: tftDisplayTime_def)

text \<open>
  C6. In a pass of \<open>loop\<close> on a set clock in which the digit colour changes (to red when
  the local hour is 20 or later, or before 6, and the reading is at most 100; to white
  otherwise), \<open>colorChange\<close> is set to 2; in that same pass the date region is redrawn in
  the new colour and takes \<open>colorChange\<close> to 1, the time region is redrawn in the new
  colour and takes it to 0, and the pass ends with \<open>colorChange = 0\<close>. A following pass
  in which the colour stays, outside the first seconds, the top of the minute and the
  minutes after midnight, draws nothing in either region.
\<close>

theorem color_change_redraws_both_once:
  assumes run: "loop c s = Inr (f, s')" and synced: "rtcSet s'"
    and flip: "numberColor s' \<noteq> numberColor s"
  shows "numberColor s' =
           (if (20 \<le>s tm_hour (local_time c) \<or> tm_hour (local_time c) <s 6)
               \<and> light_color c \<le>s 100
            then ILI9340_RED else ILI9340_WHITE)
         \<and> colorChange (at_date c s) = 2
         \<and> SetTextColor (numberColor s') ILI9340_BLACK \<in> set (date_region f)
         \<and> PrintDec (tm_year (local_time c)) \<in> set (date_region f)
         \<and> colorChange (at_time c s) = 1
         \<and> time_region f =
             [FillCircle 115 150 4 (numberColor s'), FillCircle 115 200 4 (numberColor s')]
             @ draw7Number (tm_hourFormat12 (local_time c)) 0 125 5 (numberColor s')
                 ILI9340_BLACK (- 2)
             @ draw7Number (tm_minute (local_time c)) 130 125 5 (numberColor s')
                 ILI9340_BLACK 2
         \<and> colorChange s' = 0
         \<and> (\<forall>c' f' s''.
               loop c' s' = Inr (f', s'') \<and> numberColor s'' = numberColor s'
               \<and> tm_second (local_time c') \<noteq> 0
               \<and> \<not> (tm_hour (local_time c') = 0 \<and> tm_minute (local_time c') <s 5)
               \<and> 2500 \<le> millis_date c' \<and> 2500 \<le> millis_time c'
               \<longrightarrow> date_region f' = [] \<and> time_region f' = [])"
proof -
  have col: "numberColor (at_date c s) = numberColor s'"
    using loop_Inr(4) [OF run] by simp
  have set3: "rtcSet (at_date c s)"
    using loop_Inr(3) [OF run] synced by simp
  have c1: "numberColor s' =
           (if (20 \<le>s tm_hour (local_time c) \<or> tm_hour (local_time c) <s 6)
               \<and> light_color c \<le>s 100
            then ILI9340_RED else ILI9340_WHITE)"
    using col setNumberColor_color [of "light_color c" "local_time c" "loop_head c s"] by simp
  have c2: "colorChange (at_date c s) = 2"
    using col flip by (simp add: setNumberColor_holdoff)
  then have pos3: "0 <s colorChange (at_date c s)" by (simp add: word_sless_alt)
  note d = tftDisplayDate_redraw [where ms = "millis_date c" and l = "local_time c", OF set3 pos3]
  have c3: "SetTextColor (numberColor s') ILI9340_BLACK \<in> set (date_region f)"
    and c4: "PrintDec (tm_year (local_time c)) \<in> set (date_region f)"
    using d(2,3) col loop_Inr(1) [OF run] by simp_all
  have c5: "colorChange (at_time c s) = 1"
    using d(1) c2 by simp
  then have pos4: "0 <s colorChange (at_time c s)" by (simp add: word_sless_alt)
  have set4: "rtcSet (at_time c s)" using set3 by simp
  note t = tftDisplayTime_redraw [where ms = "millis_time c" and l = "local_time c", OF set4 pos4]
  have c6: "time_region f =
             [FillCircle 115 150 4 (numberColor s'), FillCircle 115 200 4 (numberColor s')]
             @ draw7Number (tm_hourFormat12 (local_time c)) 0 125 5 (numberColor s')
                 ILI9340_BLACK (- 2)
             @ draw7Number (tm_minute (local_time c)) 130 125 5 (numberColor s')
                 ILI9340_BLACK 2"
    using t col loop_Inr(2) [OF run] by simp
  have c7: "colorChange s' = 0"
    using t c5 loop_Inr(5) [OF run] by simp
  have c8: "date_region f' = [] \<and> time_region f' = []"
    if h: "loop c' s' = Inr (f', s'') \<and> numberColor s'' = numberColor s'
           \<and> tm_second (local_time c') \<noteq> 0
           \<and> \<not> (tm_hour (local_time c') = 0 \<and> tm_minute (local_time c') <s 5)
           \<and> 2500 \<le> millis_date c' \<and> 2500 \<le> millis_time c'"
    for c' f' s''
  proof -
    from h have run': "loop c' s' = Inr (f', s'')" by simp
    have "numberColor (at_date c' s') = numberColor (loop_head c' s')"
      using loop_Inr(4) [OF run'] h by simp
    then have cc: "colorChange (at_date c' s') = 0"
      using c7 by (simp add: setNumberColor_holdoff)
    have rs: "rtcSet (at_date c' s')" using synced by simp
    have dd: "tftDisplayDate (millis_date c') (local_time c') (at_date c' s')
                = ([], at_date c' s')"
      using h rs cc by (intro tftDisplayDate_idle) simp_all
    then have tt: "tftDisplayTime (millis_time c') (local_time c') (at_time c' s')
                = ([], at_date c' s')"
      using h rs cc tftDisplayTime_idle [of "at_date c' s'" "local_time c'" "millis_time c'"]
      by simp
    show ?thesis
      using loop_Inr(1,2) [OF run'] dd tt by simp
  qed
  from c1 c2 c3 c4 c5 c6 c7 c8 show ?thesis by blast
qed

theorem color_change_redraws_both_once_witness:
  "loop (cycle_at 60000 (gps_fix 7) (local_at 20 0 7) 40) clock_synced
     = Inr (loop_frame (cycle_at 60000 (gps_fix 7) (local_at 20 0 7) 40) clock_synced,
            loop_state (cycle_at 60000 (gps_fix 7) (local_at 20 0 7) 40) clock_synced)
   \<and> rtcSet (loop_state (cycle_at 60000 (gps_fix 7) (local_at 20 0 7) 40) clock_synced)
   \<and> numberColor clock_synced = ILI9340_WHITE
   \<and> numberColor (loop_state (cycle_at 60000 (gps_fix 7) (local_at 20 0 7) 40) clock_synced)
       = ILI9340_RED
   \<and> colorChange (loop_state (cycle_at 60000 (gps_fix 7) (local_at 20 0 7) 40) clock_synced)
       = 0
   \<and> time_region
        (loop_frame (cycle_at 61000 (gps_fix 7) (local_at 20 0 8) 40)
           (loop_state (cycle_at 60000 (gps_fix 7) (local_at 20 0 7) 40) clock_synced))
       = []"
proof -
  let ?c = "cycle_at 60000 (gps_fix 7) (local_at 20 0 7) 40"
  let ?c' = "cycle_at 61000 (gps_fix 7) (local_at 20 0 8) 40"
  let ?s' = "loop_state ?c clock_synced"
  have run: "loop ?c clock_synced = Inr (loop_frame ?c clock_synced, ?s')"
    by (rule loop_runs) (simp add: cycle_at_def gps_fix_def)
  have synced: "rtcSet ?s'"
    using loop_Inr(3) [OF run] by (simp add: clock_synced_def)
  have white: "numberColor clock_synced = ILI9340_WHITE"
    by (simp add: clock_synced_def init_clock_def)
  have "numberColor (at_date ?c clock_synced) = ILI9340_RED"
    by (simp add: setNumberColor_color cycle_at_def local_at_def word_sless_alt word_sle_eq)
  then have red: "numberColor ?s' = ILI9340_RED"
    using loop_Inr(4) [OF run] by simp
  have flip: "numberColor ?s' \<noteq> numberColor clock_synced"
    using red white by (simp add: ILI9340_RED_def ILI9340_WHITE_def)
  have run': "loop ?c' ?s' = Inr (loop_frame ?c' ?s', loop_state ?c' ?s')"
    by (rule loop_runs) (simp add: cycle_at_def gps_fix_def)
  have "numberColor (at_date ?c' ?s') = ILI9340_RED"
    by (simp add: setNumberColor_color cycle_at_def local_at_def word_sless_alt word_sle_eq)
  then have stay: "numberColor (loop_state ?c' ?s') = numberColor ?s'"
    using loop_Inr(4) [OF run'] red by simp
  have rest: "tm_second (local_time ?c') \<noteq> 0
      \<and> \<not> (tm_hour (local_time ?c') = 0 \<and> tm_minute (local_time ?c') <s 5)
      \<and> (2500 :: uint32) \<le> millis_date ?c' \<and> (2500 :: uint32) \<le> millis_time ?c'"
    by (simp add: cycle_at_def local_at_def)
  note main = color_change_redraws_both_once [OF run synced flip]
  from main have zero: "colorChange ?s' = 0" by blast
  from main have "\<forall>c' f' s''.
               loop c' ?s' = Inr (f', s'') \<and> numberColor s'' = numberColor ?s'
               \<and> tm_second (local_time c') \<noteq> 0
               \<and> \<not> (tm_hour (local_time c') = 0 \<and> tm_minute (local_time c') <s 5)
               \<and> 2500 \<le> millis_date c' \<and> 2500 \<le> millis_time c'
               \<longrightarrow> date_region f' = [] \<and> time_region f' = []"
    by blast
  then have idle: "time_region (loop_frame ?c' ?s') = []"
    using run' stay rest by blast
  show ?thesis
    using run synced white red zero idle by simp
qed

text \<open>
  The hour goes from 19 to 20 with a reading of 40 and the colour changes to red. The
  next pass, still within second 0, does not redraw the date region, and the pass after
  it redraws neither the date region nor the time region.
\<close>

theorem no_redraw_after_color_change_counterexample:
  "numberColor (loop_state pass_1959 clock_synced) = ILI9340_WHITE
   \<and> numberColor (loop_state pass_2000 (loop_state pass_1959 clock_synced)) = ILI9340_RED
   \<and> colorChange (loop_state pass_2000 (loop_state pass_1959 clock_synced)) = 0
   \<and> date_region (loop_frame pass_2000_again
        (loop_state pass_2000 (loop_state pass_1959 clock_synced))) = []
   \<and> date_region (loop_frame pass_2001 (loop_state pass_2000_again
        (loop_state pass_2000 (loop_state pass_1959 clock_synced)))) = []
   \<and> time_region (loop_frame pass_2001 (loop_state pass_2000_again
        (loop_state pass_2000 (loop_state pass_1959 clock_synced)))) = []"
  by code_simp

end
